theory Spec2Isabelle
  imports Complex_Main "HOL-Library.Sublist"
begin

section \<open>JavaScript values at the boundary of \<^verbatim>\<open>fs.js\<close>\<close>

text \<open>
  An error object as a caller sees it: \<^verbatim>\<open>error.name\<close> and \<^verbatim>\<open>error.message\<close>.
  \<^verbatim>\<open>new Error(msg)\<close> builds an object whose name is the one of \<^verbatim>\<open>Error.prototype\<close>.
\<close>

record js_error =
  name :: string
  message :: string

definition new_Error :: "string \<Rightarrow> js_error" where
  "new_Error msg = \<lparr>name = ''Error'', message = msg\<rparr>"

text \<open>
  \<^verbatim>\<open>String.prototype.toUpperCase\<close> is a built-in of the JavaScript runtime, not code of
  \<^verbatim>\<open>fs.js\<close>. On a string of ASCII characters (codes below 128) it is fixed:
  \<^verbatim>\<open>a\<close>..\<^verbatim>\<open>z\<close> (codes 97..122) go to \<^verbatim>\<open>A\<close>..\<^verbatim>\<open>Z\<close>, every other character stays.
  On a string with a character outside ASCII (held here as chars with codes from 128
  on) it follows the case mappings of Unicode, which may change the length of the
  string; what it returns there is the parameter \<open>U\<close> of every function that calls it.
\<close>

definition is_ascii :: "string \<Rightarrow> bool" where
  "is_ascii s = list_all (\<lambda>c. (of_char c :: nat) < 128) s"

definition toUpperCase :: "(string \<Rightarrow> string) \<Rightarrow> string \<Rightarrow> string" where
  "toUpperCase U s =
     (if is_ascii s
      then map (\<lambda>c. if 97 \<le> (of_char c :: nat) \<and> (of_char c :: nat) \<le> 122
                   then char_of ((of_char c :: nat) - 32) else c) s
      else U s)"

text \<open>
  \<^verbatim>\<open>a || b\<close> on values that are a string or \<^verbatim>\<open>undefined\<close> (\<open>None\<close>): \<^verbatim>\<open>undefined\<close> and
  the empty string are falsy.
\<close>

definition js_or :: "string option \<Rightarrow> string option \<Rightarrow> string option" where
  "js_or a b = (case a of None \<Rightarrow> b | Some v \<Rightarrow> if v = [] then b else Some v)"

section \<open>The host: \<^verbatim>\<open>import * as FileSystem from 'expo-file-system'\<close>\<close>

text \<open>
  The host module is not part of the repository, so it is a parameter of every
  operation. A host call is asynchronous: awaited, it either yields a value (\<open>Inr\<close>) or
  throws the rejection (\<open>Inl\<close>), and it may change the host's state \<open>'h\<close>.
  The option objects are the literals \<^verbatim>\<open>fs.js\<close> builds; a field that is
  \<^verbatim>\<open>undefined\<close> is \<open>None\<close>.
\<close>

type_synonym ('h, 'a) async = "'h \<Rightarrow> (js_error + 'a) \<times> 'h"

record encoding_options =
  opt_encoding :: "string option"

record info_options =
  size_opt :: bool

record relocating_options =
  from_path :: string
  to_path :: string

record directory_options =
  intermediates :: "bool option"

text \<open>The host's answer to \<^verbatim>\<open>getInfoAsync\<close>, with the properties \<^verbatim>\<open>fs.js\<close> reads.\<close>

record file_info =
  info_exists :: bool
  info_isFile :: "bool option"
  info_isDirectory :: "bool option"
  info_size :: "nat option"
  info_modificationTime :: "real option"

record 'h FileSystem =
  EncodingType :: "string \<rightharpoonup> string"
  readAsStringAsync :: "string \<Rightarrow> encoding_options \<Rightarrow> ('h, string) async"
  writeAsStringAsync :: "string \<Rightarrow> string \<Rightarrow> encoding_options \<Rightarrow> ('h, unit) async"
  deleteAsync :: "string \<Rightarrow> ('h, unit) async"
  getInfoAsync :: "string \<Rightarrow> info_options option \<Rightarrow> ('h, file_info) async"
  moveAsync :: "relocating_options \<Rightarrow> ('h, unit) async"
  makeDirectoryAsync :: "string \<Rightarrow> directory_options \<Rightarrow> ('h, unit) async"
  readDirectoryAsync :: "string \<Rightarrow> ('h, string list) async"
  copyAsync :: "relocating_options \<Rightarrow> ('h, unit) async"

section \<open>Control flow of an \<^verbatim>\<open>async\<close> function body\<close>

definition return_value :: "'a \<Rightarrow> ('h, 'a) async" where
  "return_value v = (\<lambda>s. (Inr v, s))"

definition throw :: "js_error \<Rightarrow> ('h, 'a) async" where
  "throw e = (\<lambda>s. (Inl e, s))"

text \<open>\<^verbatim>\<open>const x = await m; k x\<close>: a rejection of \<open>m\<close> skips the rest of the block.\<close>

definition await :: "('h, 'a) async \<Rightarrow> ('a \<Rightarrow> ('h, 'b) async) \<Rightarrow> ('h, 'b) async" where
  "await m k = (\<lambda>s. case m s of (Inl e, s') \<Rightarrow> (Inl e, s') | (Inr v, s') \<Rightarrow> k v s')"

text \<open>\<^verbatim>\<open>try { body } catch (error) { handler }\<close>.\<close>

definition try_catch :: "('h, 'a) async \<Rightarrow> (js_error \<Rightarrow> ('h, 'a) async) \<Rightarrow> ('h, 'a) async" where
  "try_catch body handler =
     (\<lambda>s. case body s of (Inl e, s') \<Rightarrow> handler e s' | (Inr v, s') \<Rightarrow> (Inr v, s'))"

section \<open>The facade \<^verbatim>\<open>fs\<close>\<close>

text \<open>
  The expression
  \<^verbatim>\<open>FileSystem.EncodingType[encoding.toUpperCase()] || FileSystem.EncodingType.UTF8\<close>
  of \<^verbatim>\<open>readFile\<close>, \<^verbatim>\<open>writeFile\<close> and \<^verbatim>\<open>readFileSync\<close>, after the default parameter
  \<^verbatim>\<open>encoding = 'utf8'\<close> (an omitted argument is \<open>None\<close>). The functions that
  evaluate it take the Unicode part \<open>U\<close> of \<^verbatim>\<open>toUpperCase\<close> as their first argument.
\<close>

definition default_encoding :: "string option \<Rightarrow> string" where
  "default_encoding encoding = (case encoding of None \<Rightarrow> ''utf8'' | Some e \<Rightarrow> e)"

definition encodingType :: "(string \<Rightarrow> string) \<Rightarrow> 'h FileSystem \<Rightarrow> string option \<Rightarrow> string option" where
  "encodingType U H encoding =
     js_or (EncodingType H (toUpperCase U (default_encoding encoding))) (EncodingType H ''UTF8'')"

definition readFile :: "(string \<Rightarrow> string) \<Rightarrow> 'h FileSystem \<Rightarrow> string \<Rightarrow> string option \<Rightarrow> ('h, string) async" where
  "readFile U H path encoding =
     try_catch
       (await (readAsStringAsync H path \<lparr>opt_encoding = encodingType U H encoding\<rparr>)
          (\<lambda>content. return_value content))
       (\<lambda>error. throw (new_Error (''Failed to read file at '' @ path @ '': '' @ message error)))"

definition writeFile ::
  "(string \<Rightarrow> string) \<Rightarrow> 'h FileSystem \<Rightarrow> string \<Rightarrow> string \<Rightarrow> string option \<Rightarrow> ('h, unit) async" where
  "writeFile U H path data encoding =
     try_catch
       (writeAsStringAsync H path data \<lparr>opt_encoding = encodingType U H encoding\<rparr>)
       (\<lambda>error. throw (new_Error (''Failed to write file at '' @ path @ '': '' @ message error)))"

definition appendFile :: "(string \<Rightarrow> string) \<Rightarrow> 'h FileSystem \<Rightarrow> string \<Rightarrow> string \<Rightarrow> ('h, unit) async" where
  "appendFile U H path data =
     try_catch
       (await (readFile U H path None)
          (\<lambda>existingData. writeFile U H path (existingData @ data) None))
       (\<lambda>error. throw (new_Error (''Failed to append file at '' @ path @ '': '' @ message error)))"

definition unlink :: "'h FileSystem \<Rightarrow> string \<Rightarrow> ('h, unit) async" where
  "unlink H path =
     try_catch
       (deleteAsync H path)
       (\<lambda>error. throw (new_Error (''Failed to delete file at '' @ path @ '': '' @ message error)))"

definition exists :: "'h FileSystem \<Rightarrow> string \<Rightarrow> ('h, bool) async" where
  "exists H path =
     try_catch
       (await (getInfoAsync H path None) (\<lambda>info. return_value (info_exists info)))
       (\<lambda>_. return_value False)"

definition rename :: "'h FileSystem \<Rightarrow> string \<Rightarrow> string \<Rightarrow> ('h, unit) async" where
  "rename H oldPath newPath =
     try_catch
       (moveAsync H \<lparr>from_path = oldPath, to_path = newPath\<rparr>)
       (\<lambda>error. throw (new_Error (''Failed to rename file from '' @ oldPath @ '' to '' @ newPath
                                     @ '': '' @ message error)))"

text \<open>
  \<^verbatim>\<open>mkdir: async (path, options = { recursive: true })\<close>: the default replaces an
  omitted argument (\<open>None\<close>) as a whole; an options object that is passed is used as it
  is, and its \<^verbatim>\<open>recursive\<close> property is \<^verbatim>\<open>undefined\<close> when absent.
\<close>

record mkdir_options =
  recursive :: "bool option"

definition default_options :: "mkdir_options option \<Rightarrow> mkdir_options" where
  "default_options options = (case options of None \<Rightarrow> \<lparr>recursive = Some True\<rparr> | Some o' \<Rightarrow> o')"

definition mkdir :: "'h FileSystem \<Rightarrow> string \<Rightarrow> mkdir_options option \<Rightarrow> ('h, unit) async" where
  "mkdir H path options =
     try_catch
       (makeDirectoryAsync H path \<lparr>intermediates = recursive (default_options options)\<rparr>)
       (\<lambda>error. throw (new_Error (''Failed to create directory at '' @ path @ '': '' @ message error)))"

definition readdir :: "'h FileSystem \<Rightarrow> string \<Rightarrow> ('h, string list) async" where
  "readdir H path =
     try_catch
       (await (readDirectoryAsync H path) (\<lambda>contents. return_value contents))
       (\<lambda>error. throw (new_Error (''Failed to read directory at '' @ path @ '': '' @ message error)))"

text \<open>
  The object \<^verbatim>\<open>stat\<close> returns. \<^verbatim>\<open>isFile\<close> and \<^verbatim>\<open>isDirectory\<close> are closures over
  \<^verbatim>\<open>info\<close>; the fields here hold what calling them returns.
\<close>

record stat_descriptor =
  isFile :: "bool option"
  isDirectory :: "bool option"
  stat_size :: "nat option"
  modificationTime :: "real option"

definition stat :: "'h FileSystem \<Rightarrow> string \<Rightarrow> ('h, stat_descriptor) async" where
  "stat H path =
     try_catch
       (await (getInfoAsync H path (Some \<lparr>size_opt = True\<rparr>))
          (\<lambda>info. return_value
               \<lparr>isFile = info_isFile info,
                isDirectory = info_isDirectory info,
                stat_size = info_size info,
                modificationTime = info_modificationTime info\<rparr>))
       (\<lambda>error. throw (new_Error (''Failed to retrieve stats for '' @ path @ '': '' @ message error)))"

definition copyFile :: "'h FileSystem \<Rightarrow> string \<Rightarrow> string \<Rightarrow> ('h, unit) async" where
  "copyFile H srcPath destPath =
     try_catch
       (copyAsync H \<lparr>from_path = srcPath, to_path = destPath\<rparr>)
       (\<lambda>error. throw (new_Error (''Failed to copy file from '' @ srcPath @ '' to '' @ destPath
                                     @ '': '' @ message error)))"

subsection \<open>The pseudo-synchronous functions\<close>

text \<open>
  \<^verbatim>\<open>existsSync\<close> and \<^verbatim>\<open>readFileSync\<close> are not \<^verbatim>\<open>async\<close>: they declare a local
  variable, start the host call, register reactions on its promise with
  \<^verbatim>\<open>.then(...).catch(...)\<close> and reach their \<^verbatim>\<open>return\<close> statement in the same run. A
  promise reaction is a job of its own: registering it puts it in the job queue, and the
  queue is served only after the running code has finished, also when the promise is
  settled already. A job here acts on the variable the closures share and may end in a
  rejection of the promise chain.
\<close>

record 'a closure_state =
  variable :: 'a
  job_queue :: "('a \<Rightarrow> 'a \<times> js_error option) list"

definition enqueue :: "('a \<Rightarrow> 'a \<times> js_error option) \<Rightarrow> 'a closure_state \<Rightarrow> 'a closure_state" where
  "enqueue job c = c\<lparr>job_queue := job_queue c @ [job]\<rparr>"

fun run_jobs :: "('a \<Rightarrow> 'a \<times> js_error option) list \<Rightarrow> 'a \<Rightarrow> 'a \<times> js_error option" where
  "run_jobs [] v = (v, None)"
| "run_jobs (job # jobs) v =
     (case job v of
        (v', rejection) \<Rightarrow>
          (case run_jobs jobs v' of
             (v'', None) \<Rightarrow> (v'', rejection)
           | (v'', Some later) \<Rightarrow> (v'', Some later)))"

text \<open>
  The outcome has three parts: what the caller gets (\<open>completion\<close>: a thrown error or
  the returned value), what the local variable holds once the queue has been served
  (\<open>settled_variable\<close>, which no caller can read), and the rejection of the promise
  chain, which nothing holds (\<open>unhandled_rejection\<close>).
\<close>

record 'a pseudo_sync =
  completion :: "js_error + 'a"
  settled_variable :: 'a
  unhandled_rejection :: "js_error option"

definition existsSync :: "'h FileSystem \<Rightarrow> string \<Rightarrow> 'h \<Rightarrow> bool pseudo_sync \<times> 'h" where
  "existsSync H path s =
     (let c0 = \<lparr>variable = False, job_queue = []\<rparr>;
          (settlement, s') = getInfoAsync H path None s;
          c1 = enqueue (\<lambda>exists_var. case settlement of
                                        Inr info \<Rightarrow> (info_exists info, None)
                                      | Inl _ \<Rightarrow> (False, None)) c0;
          returned = variable c1;
          (later, rejection) = run_jobs (job_queue c1) (variable c1)
      in (\<lparr>completion = Inr returned, settled_variable = later, unhandled_rejection = rejection\<rparr>, s'))"

definition readFileSync ::
  "(string \<Rightarrow> string) \<Rightarrow> 'h FileSystem \<Rightarrow> string \<Rightarrow> string option \<Rightarrow> 'h \<Rightarrow> string pseudo_sync \<times> 'h" where
  "readFileSync U H path encoding s =
     (let c0 = \<lparr>variable = [], job_queue = []\<rparr>;
          (settlement, s') = readAsStringAsync H path \<lparr>opt_encoding = encodingType U H encoding\<rparr> s;
          c1 = enqueue (\<lambda>content. case settlement of
                                     Inr data \<Rightarrow> (data, None)
                                   | Inl error \<Rightarrow>
                                       (content, Some (new_Error (''Failed to read file at '' @ path
                                                                   @ '': '' @ message error)))) c0;
          returned = variable c1;
          (later, rejection) = run_jobs (job_queue c1) (variable c1)
      in (\<lparr>completion = Inr returned, settled_variable = later, unhandled_rejection = rejection\<rparr>, s'))"

subsection \<open>Calling a method of the object \<^verbatim>\<open>fs\<close>\<close>

text \<open>
  A call of one of the \<^verbatim>\<open>async\<close> methods with its arguments, and what the awaited call
  yields. \<open>method_name\<close> is the property name of \<^verbatim>\<open>fs\<close> that is called.
\<close>

datatype fs_call =
    ReadFile string "string option"
  | WriteFile string string "string option"
  | AppendFile string string
  | Unlink string
  | Exists string
  | Rename string string
  | Mkdir string "mkdir_options option"
  | Readdir string
  | Stat string
  | CopyFile string string

datatype fs_result =
    Text string
  | Undefined
  | Boolean bool
  | Names "string list"
  | Stats stat_descriptor

fun method_name :: "fs_call \<Rightarrow> string" where
  "method_name (ReadFile _ _) = ''readFile''"
| "method_name (WriteFile _ _ _) = ''writeFile''"
| "method_name (AppendFile _ _) = ''appendFile''"
| "method_name (Unlink _) = ''unlink''"
| "method_name (Exists _) = ''exists''"
| "method_name (Rename _ _) = ''rename''"
| "method_name (Mkdir _ _) = ''mkdir''"
| "method_name (Readdir _) = ''readdir''"
| "method_name (Stat _) = ''stat''"
| "method_name (CopyFile _ _) = ''copyFile''"

fun call :: "(string \<Rightarrow> string) \<Rightarrow> 'h FileSystem \<Rightarrow> fs_call \<Rightarrow> ('h, fs_result) async" where
  "call U H (ReadFile path encoding) = await (readFile U H path encoding) (\<lambda>v. return_value (Text v))"
| "call U H (WriteFile path data encoding) = await (writeFile U H path data encoding) (\<lambda>_. return_value Undefined)"
| "call U H (AppendFile path data) = await (appendFile U H path data) (\<lambda>_. return_value Undefined)"
| "call U H (Unlink path) = await (unlink H path) (\<lambda>_. return_value Undefined)"
| "call U H (Exists path) = await (exists H path) (\<lambda>v. return_value (Boolean v))"
| "call U H (Rename oldPath newPath) = await (rename H oldPath newPath) (\<lambda>_. return_value Undefined)"
| "call U H (Mkdir path options) = await (mkdir H path options) (\<lambda>_. return_value Undefined)"
| "call U H (Readdir path) = await (readdir H path) (\<lambda>v. return_value (Names v))"
| "call U H (Stat path) = await (stat H path) (\<lambda>v. return_value (Stats v))"
| "call U H (CopyFile srcPath destPath) = await (copyFile H srcPath destPath) (\<lambda>_. return_value Undefined)"

text \<open>
  The text that the \<^verbatim>\<open>catch\<close> block of each method puts in front of the path
  (\<^verbatim>\<open>exists\<close> has no such block: it returns \<^verbatim>\<open>false\<close>).
\<close>

fun failure_prefix :: "fs_call \<Rightarrow> string" where
  "failure_prefix (ReadFile _ _) = ''Failed to read file at ''"
| "failure_prefix (WriteFile _ _ _) = ''Failed to write file at ''"
| "failure_prefix (AppendFile _ _) = ''Failed to append file at ''"
| "failure_prefix (Unlink _) = ''Failed to delete file at ''"
| "failure_prefix (Exists _) = []"
| "failure_prefix (Rename _ _) = ''Failed to rename file from ''"
| "failure_prefix (Mkdir _ _) = ''Failed to create directory at ''"
| "failure_prefix (Readdir _) = ''Failed to read directory at ''"
| "failure_prefix (Stat _) = ''Failed to retrieve stats for ''"
| "failure_prefix (CopyFile _ _) = ''Failed to copy file from ''"

section \<open>What the specification says, as predicates\<close>

text \<open>
  The error kinds the specification names, one per operation (\<^verbatim>\<open>exists\<close> has none).
\<close>

fun spec_error_kind :: "fs_call \<Rightarrow> string" where
  "spec_error_kind (ReadFile _ _) = ''FileReadError''"
| "spec_error_kind (WriteFile _ _ _) = ''FileWriteError''"
| "spec_error_kind (AppendFile _ _) = ''FileAppendError''"
| "spec_error_kind (Unlink _) = ''FileDeleteError''"
| "spec_error_kind (Exists _) = []"
| "spec_error_kind (Rename _ _) = ''FileRenameError''"
| "spec_error_kind (Mkdir _ _) = ''DirectoryCreateError''"
| "spec_error_kind (Readdir _) = ''DirectoryReadError''"
| "spec_error_kind (Stat _) = ''StatError''"
| "spec_error_kind (CopyFile _ _) = ''FileCopyError''"

text \<open>
  The message pattern of the specification,
  \<^verbatim>\<open>Failed to <verb> <noun> at/from <path>[ to <path>]: <underlying message>\<close>:
  after \<^verbatim>\<open>Failed to\<close> come two non-empty words (the verb and the noun), one of the
  prepositions \<open>preps\<close>, the path or the two paths joined by \<^verbatim>\<open>to\<close>, a colon and the
  underlying message.
\<close>

definition first_word :: "string \<Rightarrow> string" where
  "first_word s = takeWhile (\<lambda>c. c \<noteq> CHR '' '') s"

definition after_first_word :: "string \<Rightarrow> string" where
  "after_first_word s = drop 1 (dropWhile (\<lambda>c. c \<noteq> CHR '' '') s)"

fun path_part :: "string list \<Rightarrow> string" where
  "path_part [] = []"
| "path_part [p] = p"
| "path_part (p # q # _) = p @ '' to '' @ q"

definition has_fixed_form :: "string list \<Rightarrow> string list \<Rightarrow> string \<Rightarrow> string \<Rightarrow> bool" where
  "has_fixed_form preps paths underlying msg \<longleftrightarrow>
     (let body = drop 10 msg;
          verb = first_word body;
          noun = first_word (after_first_word body);
          rest = after_first_word (after_first_word body)
      in take 10 msg = ''Failed to '' \<and> verb \<noteq> [] \<and> noun \<noteq> [] \<and>
         list_ex (\<lambda>prep. rest = prep @ '' '' @ path_part paths @ '': '' @ underlying) preps)"

text \<open>
  Two encoding names that differ in the case of their letters only: position by position
  the characters are equal, or one is a capital \<^verbatim>\<open>A\<close>..\<^verbatim>\<open>Z\<close> (codes 65..90) and the
  other one the small letter 32 codes above it.
\<close>

definition same_letter :: "char \<Rightarrow> char \<Rightarrow> bool" where
  "same_letter a b \<longleftrightarrow>
     a = b \<or>
     (65 \<le> (of_char a :: nat) \<and> (of_char a :: nat) \<le> 90 \<and> (of_char b :: nat) = of_char a + 32) \<or>
     (65 \<le> (of_char b :: nat) \<and> (of_char b :: nat) \<le> 90 \<and> (of_char a :: nat) = of_char b + 32)"

definition equal_ignoring_case :: "string \<Rightarrow> string \<Rightarrow> bool" where
  "equal_ignoring_case s t \<longleftrightarrow> list_all2 same_letter s t"

text \<open>
  What the round-trip and append properties need from the host: a write that succeeded
  is read back by a read with the same options.
\<close>

definition host_reads_back_writes :: "'h FileSystem \<Rightarrow> bool" where
  "host_reads_back_writes H \<longleftrightarrow>
     (\<forall>path data opts s s'. writeAsStringAsync H path data opts s = (Inr (), s')
        \<longrightarrow> fst (readAsStringAsync H path opts s') = Inr data)"

text \<open>
  What the directory property needs from the host. The intermediate segments of a path
  are its prefixes in front of a \<^verbatim>\<open>/\<close> (the root apart); whether a path exists, and is
  a directory, is what the host's own \<^verbatim>\<open>getInfoAsync\<close> answers. Some intermediate
  segment of the path is missing, and nothing that exists on the way is a file. Then the
  host creates the path with its intermediate segments when it is called with
  \<^verbatim>\<open>intermediates: true\<close>, and rejects the call with \<^verbatim>\<open>intermediates: false\<close>.
\<close>

definition intermediate_directories :: "string \<Rightarrow> string list" where
  "intermediate_directories p =
     map (\<lambda>n. take n p) (filter (\<lambda>n. p ! n = CHR ''/'') [1..<length p])"





section \<open>A runtime for the examples\<close>

text \<open>
  Every encoding name in the examples is ASCII, so the Unicode part of
  \<^verbatim>\<open>toUpperCase\<close> is never reached there; the examples take the identity for it.
\<close>

definition unicode_none :: "string \<Rightarrow> string" where
  "unicode_none s = s"

section \<open>A host whose every call is rejected\<close>

text \<open>A concrete host for the failure paths: every call rejects with the same error.\<close>

definition enoent :: js_error where
  "enoent = \<lparr>name = ''Error'', message = ''ENOENT''\<rparr>"

definition rejecting_host :: "unit FileSystem" where
  "rejecting_host =
     \<lparr>EncodingType = [''UTF8'' \<mapsto> ''utf8'', ''BASE64'' \<mapsto> ''base64''],
      readAsStringAsync = (\<lambda>p opts. throw enoent),
      writeAsStringAsync = (\<lambda>p d opts. throw enoent),
      deleteAsync = (\<lambda>p. throw enoent),
      getInfoAsync = (\<lambda>p opts. throw enoent),
      moveAsync = (\<lambda>opts. throw enoent),
      makeDirectoryAsync = (\<lambda>p opts. throw enoent),
      readDirectoryAsync = (\<lambda>p. throw enoent),
      copyAsync = (\<lambda>opts. throw enoent)\<rparr>"

section \<open>An in-memory host\<close>

text \<open>
  A second concrete host, for the success paths: files are kept as an association list
  from path to content and modification time, directories as a list of paths, and a
  counter stands for the clock. Text is stored as it is, whatever the encoding. Its
  info objects have the properties that expo-file-system documents for \<^verbatim>\<open>FileInfo\<close>:
  \<^verbatim>\<open>exists\<close>, \<^verbatim>\<open>isDirectory\<close>, \<^verbatim>\<open>size\<close> and \<^verbatim>\<open>modificationTime\<close>. There is no
  \<^verbatim>\<open>isFile\<close> among them, so reading that property gives \<^verbatim>\<open>undefined\<close>.
\<close>

record mem_fs =
  files :: "(string \<times> string \<times> real) list"
  directories :: "string list"
  now :: real

definition parent_directory :: "string \<Rightarrow> string" where
  "parent_directory p = rev (drop 1 (dropWhile (\<lambda>c. c \<noteq> CHR ''/'') (rev p)))"

definition base_name :: "string \<Rightarrow> string" where
  "base_name p = rev (takeWhile (\<lambda>c. c \<noteq> CHR ''/'') (rev p))"

definition mem_error :: "string \<Rightarrow> string \<Rightarrow> js_error" where
  "mem_error what p = \<lparr>name = ''Error'', message = what @ '' '' @ p\<rparr>"

definition mem_read :: "string \<Rightarrow> encoding_options \<Rightarrow> (mem_fs, string) async" where
  "mem_read p opts s =
     (case map_of (files s) p of
        None \<Rightarrow> (Inl (mem_error ''No such file'' p), s)
      | Some (d, t) \<Rightarrow> (Inr d, s))"

definition mem_write :: "string \<Rightarrow> string \<Rightarrow> encoding_options \<Rightarrow> (mem_fs, unit) async" where
  "mem_write p d opts s =
     (Inr (), s\<lparr>files := (p, d, now s) # filter (\<lambda>entry. fst entry \<noteq> p) (files s),
                now := now s + 1\<rparr>)"

definition mem_delete :: "string \<Rightarrow> (mem_fs, unit) async" where
  "mem_delete p s =
     (if p \<in> fst ` set (files s) \<or> p \<in> set (directories s)
      then (Inr (), s\<lparr>files := filter (\<lambda>entry. fst entry \<noteq> p) (files s),
                      directories := filter (\<lambda>d. d \<noteq> p) (directories s)\<rparr>)
      else (Inl (mem_error ''No such file'' p), s))"

definition mem_getInfo :: "string \<Rightarrow> info_options option \<Rightarrow> (mem_fs, file_info) async" where
  "mem_getInfo p opts s =
     (case map_of (files s) p of
        Some (d, t) \<Rightarrow>
          (Inr \<lparr>info_exists = True, info_isFile = None, info_isDirectory = Some False,
                info_size = (case opts of Some o' \<Rightarrow> if size_opt o' then Some (length d) else None
                             | None \<Rightarrow> None),
                info_modificationTime = Some t\<rparr>, s)
      | None \<Rightarrow>
          (Inr \<lparr>info_exists = (p \<in> set (directories s)), info_isFile = None,
                info_isDirectory = Some (p \<in> set (directories s)),
                info_size = None, info_modificationTime = None\<rparr>, s))"

definition mem_copy :: "bool \<Rightarrow> relocating_options \<Rightarrow> (mem_fs, unit) async" where
  "mem_copy keep opts s =
     (case map_of (files s) (from_path opts) of
        None \<Rightarrow> (Inl (mem_error ''No such file'' (from_path opts)), s)
      | Some v \<Rightarrow>
          (Inr (), s\<lparr>files := (to_path opts, v) #
                      filter (\<lambda>entry. fst entry \<noteq> to_path opts \<and> (keep \<or> fst entry \<noteq> from_path opts))
                        (files s)\<rparr>))"

definition mem_makeDirectory :: "string \<Rightarrow> directory_options \<Rightarrow> (mem_fs, unit) async" where
  "mem_makeDirectory p opts s =
     (if intermediates opts = Some True
      then (Inr (), s\<lparr>directories := p # intermediate_directories p @ directories s\<rparr>)
      else if list_all (\<lambda>d. d \<in> set (directories s)) (intermediate_directories p)
      then (Inr (), s\<lparr>directories := p # directories s\<rparr>)
      else (Inl (mem_error ''Parent directory is missing for'' p), s))"

definition mem_readDirectory :: "string \<Rightarrow> (mem_fs, string list) async" where
  "mem_readDirectory p s =
     (if p \<in> set (directories s)
      then (Inr (map base_name (filter (\<lambda>q. parent_directory q = p)
                                  (map fst (files s) @ directories s))), s)
      else (Inl (mem_error ''No such directory'' p), s))"

definition mem_host :: "mem_fs FileSystem" where
  "mem_host =
     \<lparr>EncodingType = [''UTF8'' \<mapsto> ''utf8'', ''BASE64'' \<mapsto> ''base64''],
      readAsStringAsync = mem_read,
      writeAsStringAsync = mem_write,
      deleteAsync = mem_delete,
      getInfoAsync = mem_getInfo,
      moveAsync = mem_copy False,
      makeDirectoryAsync = mem_makeDirectory,
      readDirectoryAsync = mem_readDirectory,
      copyAsync = mem_copy True\<rparr>"

text \<open>The state the examples start from: one directory, one empty file.\<close>

definition mem_start :: mem_fs where
  "mem_start = \<lparr>files = [(''/tmp/log.txt'', [], 0)], directories = [''/tmp''], now = 1\<rparr>"

text \<open>The same host on a read-only medium: every write is rejected.\<close>

definition read_only_host :: "mem_fs FileSystem" where
  "read_only_host = mem_host\<lparr>writeAsStringAsync := (\<lambda>p d opts. throw (mem_error ''Read-only file system'' p))\<rparr>"

text \<open>
  The states the examples reach: after \<^verbatim>\<open>hello\<close> has been written to a new file,
  after \<^verbatim>\<open>/tmp/a/b\<close> has been made with its intermediate directory, and after
  \<^verbatim>\<open>ab\<close> and then \<^verbatim>\<open>cd\<close> have been appended to the empty file.
\<close>

definition mem_fresh :: mem_fs where
  "mem_fresh = \<lparr>files = [(''/tmp/new.txt'', ''hello'', 1), (''/tmp/log.txt'', [], 0)],
                directories = [''/tmp''], now = 2\<rparr>"

definition mem_made :: mem_fs where
  "mem_made = \<lparr>files = [(''/tmp/log.txt'', [], 0)],
               directories = [''/tmp/a/b'', ''/tmp'', ''/tmp/a'', ''/tmp''], now = 1\<rparr>"

definition mem_ab :: mem_fs where
  "mem_ab = \<lparr>files = [(''/tmp/log.txt'', ''ab'', 1)], directories = [''/tmp''], now = 2\<rparr>"

definition mem_abcd :: mem_fs where
  "mem_abcd = \<lparr>files = [(''/tmp/log.txt'', ''abcd'', 2)], directories = [''/tmp''], now = 3\<rparr>"

section \<open>Outcome of the wrapped calls\<close>

lemmas control_defs = try_catch_def await_def return_value_def throw_def

lemma new_Error_sel [simp]:
  "name (new_Error msg) = ''Error''" "message (new_Error msg) = msg"
  by (simp_all add: new_Error_def)

text \<open>When a wrapped call throws, the host call failed and the handler built the error.\<close>

lemma try_catch_throw_Inl:
  assumes "fst (try_catch body (\<lambda>error. throw (f error)) s) = Inl e"
  shows "\<exists>he. fst (body s) = Inl he \<and> e = f he"
  using assms by (auto simp: try_catch_def throw_def split: prod.splits sum.splits)

lemma try_catch_return_Inr:
  "fst (try_catch body (\<lambda>error. return_value v) s) \<noteq> Inl e"
  by (auto simp: try_catch_def return_value_def split: prod.splits sum.splits)

lemma await_return_Inl:
  "fst (await m (\<lambda>v. return_value (g v)) s) = Inl e \<longleftrightarrow> fst (m s) = Inl e"
  by (auto simp: await_def return_value_def split: prod.splits sum.splits)

lemma try_catch_throw_fails:
  "fst (body s) = Inl he \<Longrightarrow> fst (try_catch body (\<lambda>error. throw (f error)) s) = Inl (f he)"
  by (auto simp: try_catch_def throw_def split: prod.splits sum.splits)

lemma await_fails:
  "fst (m s) = Inl he \<Longrightarrow> fst (await m k s) = Inl he"
  by (auto simp: await_def split: prod.splits sum.splits)

text \<open>Success of \<^verbatim>\<open>readFile\<close>, \<^verbatim>\<open>writeFile\<close> and \<^verbatim>\<open>appendFile\<close> is success of the host.\<close>

lemma readFile_Inr:
  "readFile U H path encoding s = (Inr v, s') \<longleftrightarrow>
   readAsStringAsync H path \<lparr>opt_encoding = encodingType U H encoding\<rparr> s = (Inr v, s')"
  by (auto simp: readFile_def control_defs split: prod.splits sum.splits)

lemma writeFile_Inr:
  "writeFile U H path data encoding s = (Inr v, s') \<longleftrightarrow>
   writeAsStringAsync H path data \<lparr>opt_encoding = encodingType U H encoding\<rparr> s = (Inr v, s')"
  by (auto simp: writeFile_def control_defs split: prod.splits sum.splits)

lemma fst_readFile_Inr:
  "fst (readFile U H path encoding s) = Inr v \<longleftrightarrow>
   fst (readAsStringAsync H path \<lparr>opt_encoding = encodingType U H encoding\<rparr> s) = Inr v"
  by (auto simp: readFile_def control_defs split: prod.splits sum.splits)

lemma appendFile_Inr:
  "appendFile U H path data s = (Inr v, s2) \<longleftrightarrow>
   (\<exists>existingData s1. readFile U H path None s = (Inr existingData, s1) \<and>
                       writeFile U H path (existingData @ data) None s1 = (Inr v, s2))"
  by (auto simp: appendFile_def control_defs split: prod.splits sum.splits)

lemma write_then_read:
  assumes "host_reads_back_writes H"
    and "writeFile U H path data encoding s = (Inr (), s')"
  shows "fst (readFile U H path encoding s') = Inr data"
  using assms unfolding host_reads_back_writes_def writeFile_Inr fst_readFile_Inr
  by blast

lemma mem_host_reads_back_writes: "host_reads_back_writes mem_host"
  by (simp add: host_reads_back_writes_def mem_host_def mem_write_def mem_read_def)

text \<open>The error each method throws when its host call is rejected.\<close>

lemma readFile_fails:
  assumes "fst (readAsStringAsync H path \<lparr>opt_encoding = encodingType U H encoding\<rparr> s) = Inl he"
  shows "fst (readFile U H path encoding s) =
           Inl (new_Error (''Failed to read file at '' @ path @ '': '' @ message he))"
  unfolding readFile_def by (rule try_catch_throw_fails, rule await_fails, rule assms)

lemma writeFile_fails:
  assumes "fst (writeAsStringAsync H path data \<lparr>opt_encoding = encodingType U H encoding\<rparr> s) = Inl he"
  shows "fst (writeFile U H path data encoding s) =
           Inl (new_Error (''Failed to write file at '' @ path @ '': '' @ message he))"
  unfolding writeFile_def by (rule try_catch_throw_fails) (rule assms)

lemma appendFile_read_fails:
  assumes "fst (readAsStringAsync H path \<lparr>opt_encoding = encodingType U H None\<rparr> s) = Inl he"
  shows "fst (appendFile U H path data s) =
           Inl (new_Error (''Failed to append file at '' @ path @ '': '' @
                           ''Failed to read file at '' @ path @ '': '' @ message he))"
proof -
  have "fst (appendFile U H path data s) =
          Inl (new_Error (''Failed to append file at '' @ path @ '': '' @
                 message (new_Error (''Failed to read file at '' @ path @ '': '' @ message he))))"
    unfolding appendFile_def
    by (rule try_catch_throw_fails, rule await_fails, rule readFile_fails, rule assms)
  then show ?thesis by simp
qed

lemma appendFile_write_fails:
  assumes "readAsStringAsync H path \<lparr>opt_encoding = encodingType U H None\<rparr> s = (Inr existingData, s1)"
    and "fst (writeAsStringAsync H path (existingData @ data) \<lparr>opt_encoding = encodingType U H None\<rparr> s1) = Inl he"
  shows "fst (appendFile U H path data s) =
           Inl (new_Error (''Failed to append file at '' @ path @ '': '' @
                           ''Failed to write file at '' @ path @ '': '' @ message he))"
proof -
  from assms(1) have "readFile U H path None s = (Inr existingData, s1)"
    by (simp add: readFile_Inr)
  then have "fst (await (readFile U H path None)
                   (\<lambda>existingData. writeFile U H path (existingData @ data) None) s) =
             Inl (new_Error (''Failed to write file at '' @ path @ '': '' @ message he))"
    by (simp add: await_def writeFile_fails [OF assms(2)])
  then have "fst (appendFile U H path data s) =
          Inl (new_Error (''Failed to append file at '' @ path @ '': '' @
                 message (new_Error (''Failed to write file at '' @ path @ '': '' @ message he))))"
    unfolding appendFile_def by (rule try_catch_throw_fails)
  then show ?thesis by simp
qed

lemma unlink_fails:
  assumes "fst (deleteAsync H path s) = Inl he"
  shows "fst (unlink H path s) =
           Inl (new_Error (''Failed to delete file at '' @ path @ '': '' @ message he))"
  unfolding unlink_def by (rule try_catch_throw_fails) (rule assms)

lemma rename_fails:
  assumes "fst (moveAsync H \<lparr>from_path = oldPath, to_path = newPath\<rparr> s) = Inl he"
  shows "fst (rename H oldPath newPath s) =
           Inl (new_Error (''Failed to rename file from '' @ oldPath @ '' to '' @ newPath @ '': ''
                           @ message he))"
  unfolding rename_def by (rule try_catch_throw_fails) (rule assms)

lemma mkdir_fails:
  assumes "fst (makeDirectoryAsync H path \<lparr>intermediates = recursive (default_options options)\<rparr> s) = Inl he"
  shows "fst (mkdir H path options s) =
           Inl (new_Error (''Failed to create directory at '' @ path @ '': '' @ message he))"
  unfolding mkdir_def by (rule try_catch_throw_fails) (rule assms)

lemma readdir_fails:
  assumes "fst (readDirectoryAsync H path s) = Inl he"
  shows "fst (readdir H path s) =
           Inl (new_Error (''Failed to read directory at '' @ path @ '': '' @ message he))"
  unfolding readdir_def by (rule try_catch_throw_fails, rule await_fails, rule assms)

lemma stat_fails:
  assumes "fst (getInfoAsync H path (Some \<lparr>size_opt = True\<rparr>) s) = Inl he"
  shows "fst (stat H path s) =
           Inl (new_Error (''Failed to retrieve stats for '' @ path @ '': '' @ message he))"
  unfolding stat_def by (rule try_catch_throw_fails, rule await_fails, rule assms)

lemma copyFile_fails:
  assumes "fst (copyAsync H \<lparr>from_path = srcPath, to_path = destPath\<rparr> s) = Inl he"
  shows "fst (copyFile H srcPath destPath s) =
           Inl (new_Error (''Failed to copy file from '' @ srcPath @ '' to '' @ destPath @ '': ''
                           @ message he))"
  unfolding copyFile_def by (rule try_catch_throw_fails) (rule assms)

lemma rejecting_host_sel:
  "readAsStringAsync rejecting_host p opts s = (Inl enoent, s)"
  "writeAsStringAsync rejecting_host p d opts s = (Inl enoent, s)"
  "deleteAsync rejecting_host p s = (Inl enoent, s)"
  "getInfoAsync rejecting_host p iopts s = (Inl enoent, s)"
  "moveAsync rejecting_host ropts s = (Inl enoent, s)"
  "makeDirectoryAsync rejecting_host p dopts s = (Inl enoent, s)"
  "readDirectoryAsync rejecting_host p s = (Inl enoent, s)"
  "copyAsync rejecting_host ropts s = (Inl enoent, s)"
  by (simp_all add: rejecting_host_def throw_def)

text \<open>The messages of the source, matched against the pattern.\<close>

lemmas form_defs = has_fixed_form_def first_word_def after_first_word_def

lemma form_read_file: "has_fixed_form [''at'', ''from''] [p] u (''Failed to read file at '' @ p @ '': '' @ u)"
  by (simp add: form_defs)

lemma form_write_file: "has_fixed_form [''at'', ''from''] [p] u (''Failed to write file at '' @ p @ '': '' @ u)"
  by (simp add: form_defs)

lemma form_append_file: "has_fixed_form [''at'', ''from''] [p] u (''Failed to append file at '' @ p @ '': '' @ u)"
  by (simp add: form_defs)

lemma form_delete_file: "has_fixed_form [''at'', ''from''] [p] u (''Failed to delete file at '' @ p @ '': '' @ u)"
  by (simp add: form_defs)

lemma form_rename_file:
  "has_fixed_form [''at'', ''from''] [p, q] u (''Failed to rename file from '' @ p @ '' to '' @ q @ '': '' @ u)"
  by (simp add: form_defs)

lemma form_create_directory:
  "has_fixed_form [''at'', ''from''] [p] u (''Failed to create directory at '' @ p @ '': '' @ u)"
  by (simp add: form_defs)

lemma form_read_directory:
  "has_fixed_form [''at'', ''from''] [p] u (''Failed to read directory at '' @ p @ '': '' @ u)"
  by (simp add: form_defs)

lemma form_retrieve_stats:
  "has_fixed_form [''for''] [p] u (''Failed to retrieve stats for '' @ p @ '': '' @ u)"
  by (simp add: form_defs)

lemma form_copy_file:
  "has_fixed_form [''at'', ''from''] [p, q] u (''Failed to copy file from '' @ p @ '' to '' @ q @ '': '' @ u)"
  by (simp add: form_defs)

text \<open>Every error that a call of a method throws starts with the prefix of that method.\<close>

lemma call_failure:
  assumes "fst (call U H c s) = Inl e"
  shows "name e = ''Error'' \<and> (\<forall>p. c \<noteq> Exists p) \<and> prefix (failure_prefix c) (message e)"
proof (cases c)
  case (ReadFile p enc)
  with assms have "fst (readFile U H p enc s) = Inl e" by (simp add: await_return_Inl)
  from try_catch_throw_Inl [OF this [unfolded readFile_def]] ReadFile show ?thesis by auto
next
  case (WriteFile p d enc)
  with assms have "fst (writeFile U H p d enc s) = Inl e" by (simp add: await_return_Inl)
  from try_catch_throw_Inl [OF this [unfolded writeFile_def]] WriteFile show ?thesis by auto
next
  case (AppendFile p d)
  with assms have "fst (appendFile U H p d s) = Inl e" by (simp add: await_return_Inl)
  from try_catch_throw_Inl [OF this [unfolded appendFile_def]] AppendFile show ?thesis by auto
next
  case (Unlink p)
  with assms have "fst (unlink H p s) = Inl e" by (simp add: await_return_Inl)
  from try_catch_throw_Inl [OF this [unfolded unlink_def]] Unlink show ?thesis by auto
next
  case (Exists p)
  with assms have "fst (exists H p s) = Inl e" by (simp add: await_return_Inl)
  then show ?thesis by (simp add: exists_def try_catch_return_Inr)
next
  case (Rename p q)
  with assms have "fst (rename H p q s) = Inl e" by (simp add: await_return_Inl)
  from try_catch_throw_Inl [OF this [unfolded rename_def]] Rename show ?thesis by auto
next
  case (Mkdir p opts)
  with assms have "fst (mkdir H p opts s) = Inl e" by (simp add: await_return_Inl)
  from try_catch_throw_Inl [OF this [unfolded mkdir_def]] Mkdir show ?thesis by auto
next
  case (Readdir p)
  with assms have "fst (readdir H p s) = Inl e" by (simp add: await_return_Inl)
  from try_catch_throw_Inl [OF this [unfolded readdir_def]] Readdir show ?thesis by auto
next
  case (Stat p)
  with assms have "fst (stat H p s) = Inl e" by (simp add: await_return_Inl)
  from try_catch_throw_Inl [OF this [unfolded stat_def]] Stat show ?thesis by auto
next
  case (CopyFile p q)
  with assms have "fst (copyFile H p q s) = Inl e" by (simp add: await_return_Inl)
  from try_catch_throw_Inl [OF this [unfolded copyFile_def]] CopyFile show ?thesis by auto
qed

lemma failure_prefix_incomparable:
  assumes "method_name c \<noteq> method_name c'" and "\<forall>p. c \<noteq> Exists p" and "\<forall>p. c' \<noteq> Exists p"
  shows "\<not> prefix (failure_prefix c) (failure_prefix c')"
  using assms by (cases c; cases c') simp_all

text \<open>Resolution of the encoding name.\<close>

lemma is_ascii_same_letter:
  "list_all2 same_letter s t \<Longrightarrow> is_ascii s \<Longrightarrow> is_ascii t"
  unfolding is_ascii_def
  by (induction rule: list_all2_induct) (auto simp: same_letter_def)

lemma ascii_upper_same:
  "list_all2 same_letter s t \<Longrightarrow>
   map (\<lambda>c. if 97 \<le> (of_char c :: nat) \<and> (of_char c :: nat) \<le> 122
            then char_of ((of_char c :: nat) - 32) else c) s =
   map (\<lambda>c. if 97 \<le> (of_char c :: nat) \<and> (of_char c :: nat) \<le> 122
            then char_of ((of_char c :: nat) - 32) else c) t"
  by (induction rule: list_all2_induct) (auto simp: same_letter_def)

lemma toUpperCase_same:
  assumes "is_ascii s" and "equal_ignoring_case s t"
  shows "toUpperCase U s = toUpperCase U t"
proof -
  from assms have l: "list_all2 same_letter s t" by (simp add: equal_ignoring_case_def)
  with assms(1) have "is_ascii t" by (rule is_ascii_same_letter [rotated])
  with assms(1) ascii_upper_same [OF l] show ?thesis by (simp add: toUpperCase_def)
qed

lemma js_or_same: "js_or a a = a"
  by (simp add: js_or_def split: option.splits)

lemma toUpperCase_utf8: "toUpperCase U ''utf8'' = ''UTF8''"
proof -
  have "is_ascii ''utf8''" by code_simp
  moreover have
    "map (\<lambda>c. if 97 \<le> (of_char c :: nat) \<and> (of_char c :: nat) \<le> 122
              then char_of ((of_char c :: nat) - 32) else c) ''utf8'' = ''UTF8''"
    by code_simp
  ultimately show ?thesis by (simp only: toUpperCase_def if_True)
qed

lemma encodingType_default: "encodingType U H None = EncodingType H ''UTF8''"
  by (simp add: encodingType_def default_encoding_def toUpperCase_utf8 js_or_same)

lemma encodingType_utf8: "encodingType U H (Some ''utf8'') = EncodingType H ''UTF8''"
  by (simp add: encodingType_def default_encoding_def toUpperCase_utf8 js_or_same)

lemma encodingType_unrecognized:
  "EncodingType H (toUpperCase U u) = None \<Longrightarrow> encodingType U H (Some u) = EncodingType H ''UTF8''"
  by (simp add: encodingType_def default_encoding_def js_or_def)

lemma encodingType_recognized:
  "EncodingType H (toUpperCase U r) = Some v \<Longrightarrow> v \<noteq> [] \<Longrightarrow> encodingType U H (Some r) = Some v"
  by (simp add: encodingType_def default_encoding_def js_or_def)

lemma encodingType_same_upper:
  "toUpperCase U n1 = toUpperCase U n2 \<Longrightarrow> encodingType U H (Some n1) = encodingType U H (Some n2)"
  by (simp add: encodingType_def default_encoding_def)

lemma encodingType_same:
  "is_ascii e1 \<Longrightarrow> equal_ignoring_case e1 e2 \<Longrightarrow>
   encodingType U H (Some e1) = encodingType U H (Some e2)"
  by (rule encodingType_same_upper) (rule toUpperCase_same)

lemma same_encodingType:
  assumes "encodingType U H x = encodingType U H y"
  shows "readFile U H path x = readFile U H path y \<and>
         writeFile U H path data x = writeFile U H path data y \<and>
         readFileSync U H path x = readFileSync U H path y"
  using assms by (simp add: readFile_def writeFile_def readFileSync_def fun_eq_iff)

section \<open>The pseudo-synchronous functions return their placeholder\<close>

text \<open>
  C1. For every host, path, encoding and host state, \<^verbatim>\<open>existsSync\<close> completes by
  returning \<^verbatim>\<open>false\<close> and \<^verbatim>\<open>readFileSync\<close> by returning the empty string: the caller
  never gets the host's answer and never gets an error, whether the host call succeeds
  or is rejected.
\<close>

theorem pseudo_sync_placeholder:
  "completion (fst (existsSync H path s)) = Inr False \<and>
   completion (fst (readFileSync U H path encoding s)) = Inr []"
  by (simp add: existsSync_def readFileSync_def enqueue_def Let_def split: prod.splits)

text \<open>
  The real answer only reaches the local variable, after the return; a rejected read
  ends as a rejection nobody handles.
\<close>

lemma pseudo_sync_settles_later:
  "settled_variable (fst (existsSync mem_host ''/tmp/log.txt'' mem_start)) = True \<and>
   completion (fst (existsSync mem_host ''/tmp/log.txt'' mem_start)) = Inr False \<and>
   settled_variable (fst (readFileSync unicode_none mem_host ''/tmp/new.txt'' None mem_fresh)) = ''hello'' \<and>
   completion (fst (readFileSync unicode_none mem_host ''/tmp/new.txt'' None mem_fresh)) = Inr [] \<and>
   unhandled_rejection (fst (readFileSync unicode_none rejecting_host ''/f'' None ())) =
     Some (new_Error ''Failed to read file at /f: ENOENT'') \<and>
   completion (fst (readFileSync unicode_none rejecting_host ''/f'' None ())) = Inr []"
  by code_simp

section \<open>exists\<close>

text \<open>
  C2. For every path, \<^verbatim>\<open>exists(path)\<close> completes with a boolean and never throws:
  whenever the host's \<^verbatim>\<open>getInfoAsync\<close> is rejected, whatever the error, the
  result is \<^verbatim>\<open>false\<close>.
\<close>

theorem exists_never_throws:
  "(\<exists>b. fst (exists H path s) = Inr b) \<and>
   (\<forall>e. fst (getInfoAsync H path None s) = Inl e \<longrightarrow> fst (exists H path s) = Inr False)"
  by (auto simp: exists_def control_defs split: prod.splits sum.splits)

theorem exists_never_throws_witness:
  "fst (getInfoAsync rejecting_host ''/missing.txt'' None ()) = Inl enoent \<and>
   fst (exists rejecting_host ''/missing.txt'' ()) = Inr False"
  using exists_never_throws [of rejecting_host "''/missing.txt''" "()"]
  by (simp add: rejecting_host_def throw_def)

section \<open>appendFile\<close>

text \<open>
  C3. \<^verbatim>\<open>appendFile(path, data)\<close> is \<^verbatim>\<open>readFile\<close> followed by \<^verbatim>\<open>writeFile\<close> of the
  content read with \<^verbatim>\<open>data\<close> appended: it succeeds exactly when the read succeeds and
  the write of the concatenation, in the state the read left, succeeds. On a host that
  reads back what it wrote, and a file that reads as empty, \<^verbatim>\<open>appendFile(path, a)\<close>
  followed by \<^verbatim>\<open>appendFile(path, b)\<close>, both successful and one after the other, leave
  a file that reads as \<open>a @ b\<close>.
\<close>

theorem appendFile_read_then_write:
  "(appendFile U H path data s = (Inr (), s2) \<longleftrightarrow>
      (\<exists>existingData s1. readFile U H path None s = (Inr existingData, s1) \<and>
                          writeFile U H path (existingData @ data) None s1 = (Inr (), s2))) \<and>
   (host_reads_back_writes H \<and> fst (readFile U H path None s0) = Inr [] \<and>
    appendFile U H path a s0 = (Inr (), sa) \<and> appendFile U H path b sa = (Inr (), sb)
      \<longrightarrow> fst (readFile U H path None sb) = Inr (a @ b))"
proof (intro conjI impI)
  show "appendFile U H path data s = (Inr (), s2) \<longleftrightarrow>
      (\<exists>existingData s1. readFile U H path None s = (Inr existingData, s1) \<and>
                          writeFile U H path (existingData @ data) None s1 = (Inr (), s2))"
    by (rule appendFile_Inr)
next
  assume h: "host_reads_back_writes H \<and> fst (readFile U H path None s0) = Inr [] \<and>
    appendFile U H path a s0 = (Inr (), sa) \<and> appendFile U H path b sa = (Inr (), sb)"
  then have rt: "host_reads_back_writes H" and empty: "fst (readFile U H path None s0) = Inr []"
    and first: "appendFile U H path a s0 = (Inr (), sa)" and second: "appendFile U H path b sa = (Inr (), sb)"
    by simp_all
  from first obtain x s1 where r1: "readFile U H path None s0 = (Inr x, s1)"
    and w1: "writeFile U H path (x @ a) None s1 = (Inr (), sa)"
    unfolding appendFile_Inr by blast
  from r1 empty have "x = []" by simp
  with w1 have "writeFile U H path a None s1 = (Inr (), sa)" by simp
  with rt have after_first: "fst (readFile U H path None sa) = Inr a"
    by (rule write_then_read)
  from second obtain y s3 where r2: "readFile U H path None sa = (Inr y, s3)"
    and w2: "writeFile U H path (y @ b) None s3 = (Inr (), sb)"
    unfolding appendFile_Inr by blast
  from r2 after_first have "y = a" by simp
  with w2 have "writeFile U H path (a @ b) None s3 = (Inr (), sb)" by simp
  with rt show "fst (readFile U H path None sb) = Inr (a @ b)"
    by (rule write_then_read)
qed

theorem appendFile_read_then_write_witness:
  "host_reads_back_writes mem_host \<and>
   fst (readFile unicode_none mem_host ''/tmp/log.txt'' None mem_start) = Inr [] \<and>
   appendFile unicode_none mem_host ''/tmp/log.txt'' ''ab'' mem_start = (Inr (), mem_ab) \<and>
   appendFile unicode_none mem_host ''/tmp/log.txt'' ''cd'' mem_ab = (Inr (), mem_abcd) \<and>
   fst (readFile unicode_none mem_host ''/tmp/log.txt'' None mem_abcd) = Inr ''abcd''"
proof -
  have e: "fst (readFile unicode_none mem_host ''/tmp/log.txt'' None mem_start) = Inr []"
    by (simp add: readFile_def control_defs mem_host_def mem_read_def mem_start_def)
  have a: "appendFile unicode_none mem_host ''/tmp/log.txt'' ''ab'' mem_start = (Inr (), mem_ab)"
    by (simp add: appendFile_def readFile_def writeFile_def control_defs mem_host_def
          mem_read_def mem_write_def mem_start_def mem_ab_def)
  have b: "appendFile unicode_none mem_host ''/tmp/log.txt'' ''cd'' mem_ab = (Inr (), mem_abcd)"
    by (simp add: appendFile_def readFile_def writeFile_def control_defs mem_host_def
          mem_read_def mem_write_def mem_ab_def mem_abcd_def)
  from appendFile_read_then_write [where U = unicode_none and H = mem_host
      and path = "''/tmp/log.txt''" and data = "''ab''" and s = mem_start and ?s2.0 = mem_ab
      and ?s0.0 = mem_start and a = "''ab''" and sa = mem_ab and b = "''cd''" and sb = mem_abcd]
    mem_host_reads_back_writes e a b
  show ?thesis by simp
qed

section \<open>Encoding names\<close>

text \<open>
  C4. In \<^verbatim>\<open>readFile\<close>, \<^verbatim>\<open>writeFile\<close> and \<^verbatim>\<open>readFileSync\<close> the host call gets the
  encoding that the name resolves to, and the resolution looks at the name through
  \<^verbatim>\<open>toUpperCase\<close> only. Two ASCII names that differ only in the case of their
  letters, and any two names with the same upper-case form, select the same encoding
  and give the same call. A name whose upper-case form is a key of \<^verbatim>\<open>EncodingType\<close>
  with a non-empty value selects that value; a name whose upper-case form is no key
  selects \<^verbatim>\<open>EncodingType.UTF8\<close>, exactly as the name \<^verbatim>\<open>utf8\<close> does, and raises
  nothing of its own; an omitted encoding is the name \<^verbatim>\<open>utf8\<close>.
\<close>

theorem encoding_resolution:
  "(is_ascii e1 \<and> equal_ignoring_case e1 e2 \<longrightarrow>
      encodingType U H (Some e1) = encodingType U H (Some e2) \<and>
      readFile U H path (Some e1) = readFile U H path (Some e2) \<and>
      writeFile U H path data (Some e1) = writeFile U H path data (Some e2) \<and>
      readFileSync U H path (Some e1) = readFileSync U H path (Some e2)) \<and>
   (toUpperCase U n1 = toUpperCase U n2 \<longrightarrow>
      encodingType U H (Some n1) = encodingType U H (Some n2) \<and>
      readFile U H path (Some n1) = readFile U H path (Some n2) \<and>
      writeFile U H path data (Some n1) = writeFile U H path data (Some n2) \<and>
      readFileSync U H path (Some n1) = readFileSync U H path (Some n2)) \<and>
   (EncodingType H (toUpperCase U r) = Some v \<and> v \<noteq> [] \<longrightarrow>
      encodingType U H (Some r) = Some v) \<and>
   (EncodingType H (toUpperCase U u) = None \<longrightarrow>
      encodingType U H (Some u) = EncodingType H ''UTF8'' \<and>
      readFile U H path (Some u) = readFile U H path (Some ''utf8'') \<and>
      writeFile U H path data (Some u) = writeFile U H path data (Some ''utf8'') \<and>
      readFileSync U H path (Some u) = readFileSync U H path (Some ''utf8'')) \<and>
   (default_encoding None = ''utf8'' \<and>
    encodingType U H None = EncodingType H ''UTF8'' \<and>
    encodingType U H None = encodingType U H (Some ''utf8'') \<and>
    readFile U H path None = readFile U H path (Some ''utf8'') \<and>
    writeFile U H path data None = writeFile U H path data (Some ''utf8'') \<and>
    readFileSync U H path None = readFileSync U H path (Some ''utf8'')) \<and>
   (readFile U H path encoding s =
      (case readAsStringAsync H path \<lparr>opt_encoding = encodingType U H encoding\<rparr> s of
         (Inl error, s') \<Rightarrow>
           (Inl (new_Error (''Failed to read file at '' @ path @ '': '' @ message error)), s')
       | (Inr content, s') \<Rightarrow> (Inr content, s')) \<and>
    writeFile U H path data encoding s =
      (case writeAsStringAsync H path data \<lparr>opt_encoding = encodingType U H encoding\<rparr> s of
         (Inl error, s') \<Rightarrow>
           (Inl (new_Error (''Failed to write file at '' @ path @ '': '' @ message error)), s')
       | (Inr done, s') \<Rightarrow> (Inr done, s')) \<and>
    snd (readFileSync U H path encoding s) =
      snd (readAsStringAsync H path \<lparr>opt_encoding = encodingType U H encoding\<rparr> s) \<and>
    settled_variable (fst (readFileSync U H path encoding s)) =
      (case fst (readAsStringAsync H path \<lparr>opt_encoding = encodingType U H encoding\<rparr> s) of
         Inl error \<Rightarrow> []
       | Inr content \<Rightarrow> content))"
proof (intro conjI impI)
  assume "is_ascii e1 \<and> equal_ignoring_case e1 e2"
  then have r: "encodingType U H (Some e1) = encodingType U H (Some e2)"
    by (simp add: encodingType_same)
  show "encodingType U H (Some e1) = encodingType U H (Some e2)" by (rule r)
  from same_encodingType [OF r]
  show "readFile U H path (Some e1) = readFile U H path (Some e2)"
    and "writeFile U H path data (Some e1) = writeFile U H path data (Some e2)"
    and "readFileSync U H path (Some e1) = readFileSync U H path (Some e2)"
    by simp_all
next
  assume "toUpperCase U n1 = toUpperCase U n2"
  then have r: "encodingType U H (Some n1) = encodingType U H (Some n2)"
    by (rule encodingType_same_upper)
  show "encodingType U H (Some n1) = encodingType U H (Some n2)" by (rule r)
  from same_encodingType [OF r]
  show "readFile U H path (Some n1) = readFile U H path (Some n2)"
    and "writeFile U H path data (Some n1) = writeFile U H path data (Some n2)"
    and "readFileSync U H path (Some n1) = readFileSync U H path (Some n2)"
    by simp_all
next
  assume "EncodingType H (toUpperCase U r) = Some v \<and> v \<noteq> []"
  then show "encodingType U H (Some r) = Some v"
    by (simp add: encodingType_recognized)
next
  assume n: "EncodingType H (toUpperCase U u) = None"
  then show "encodingType U H (Some u) = EncodingType H ''UTF8''"
    by (rule encodingType_unrecognized)
  with encodingType_utf8 [of U H]
  have r: "encodingType U H (Some u) = encodingType U H (Some ''utf8'')" by simp
  from same_encodingType [OF r]
  show "readFile U H path (Some u) = readFile U H path (Some ''utf8'')"
    and "writeFile U H path data (Some u) = writeFile U H path data (Some ''utf8'')"
    and "readFileSync U H path (Some u) = readFileSync U H path (Some ''utf8'')"
    by simp_all
next
  show "default_encoding None = ''utf8''" by (simp add: default_encoding_def)
  show "encodingType U H None = EncodingType H ''UTF8''" by (rule encodingType_default)
  have r: "encodingType U H None = encodingType U H (Some ''utf8'')"
    by (simp add: encodingType_default encodingType_utf8)
  show "encodingType U H None = encodingType U H (Some ''utf8'')" by (rule r)
  from same_encodingType [OF r]
  show "readFile U H path None = readFile U H path (Some ''utf8'')"
    and "writeFile U H path data None = writeFile U H path data (Some ''utf8'')"
    and "readFileSync U H path None = readFileSync U H path (Some ''utf8'')"
    by simp_all
next
  show "readFile U H path encoding s =
      (case readAsStringAsync H path \<lparr>opt_encoding = encodingType U H encoding\<rparr> s of
         (Inl error, s') \<Rightarrow>
           (Inl (new_Error (''Failed to read file at '' @ path @ '': '' @ message error)), s')
       | (Inr content, s') \<Rightarrow> (Inr content, s'))"
    by (auto simp: readFile_def control_defs split: prod.splits sum.splits)
  show "writeFile U H path data encoding s =
      (case writeAsStringAsync H path data \<lparr>opt_encoding = encodingType U H encoding\<rparr> s of
         (Inl error, s') \<Rightarrow>
           (Inl (new_Error (''Failed to write file at '' @ path @ '': '' @ message error)), s')
       | (Inr done, s') \<Rightarrow> (Inr done, s'))"
    by (auto simp: writeFile_def control_defs split: prod.splits sum.splits)
  show "snd (readFileSync U H path encoding s) =
      snd (readAsStringAsync H path \<lparr>opt_encoding = encodingType U H encoding\<rparr> s)"
    by (simp add: readFileSync_def Let_def split: prod.splits)
  show "settled_variable (fst (readFileSync U H path encoding s)) =
      (case fst (readAsStringAsync H path \<lparr>opt_encoding = encodingType U H encoding\<rparr> s) of
         Inl error \<Rightarrow> []
       | Inr content \<Rightarrow> content)"
    by (simp add: readFileSync_def enqueue_def Let_def split: prod.splits sum.splits)
qed

theorem encoding_resolution_witness:
  "is_ascii ''Base64'' \<and> equal_ignoring_case ''Base64'' ''bASE64'' \<and>
   toUpperCase unicode_none ''base64'' = toUpperCase unicode_none ''BASE64'' \<and>
   EncodingType mem_host (toUpperCase unicode_none ''base64'') = Some ''base64'' \<and>
   EncodingType mem_host (toUpperCase unicode_none ''latin1'') = None \<and>
   encodingType unicode_none mem_host (Some ''Base64'') = encodingType unicode_none mem_host (Some ''bASE64'') \<and>
   encodingType unicode_none mem_host (Some ''base64'') = Some ''base64'' \<and>
   encodingType unicode_none mem_host (Some ''latin1'') = Some ''utf8'' \<and>
   encodingType unicode_none mem_host None = Some ''utf8'' \<and>
   readFile unicode_none mem_host ''/tmp/log.txt'' (Some ''Base64'') =
     readFile unicode_none mem_host ''/tmp/log.txt'' (Some ''bASE64'') \<and>
   readFile unicode_none mem_host ''/tmp/log.txt'' (Some ''latin1'') =
     readFile unicode_none mem_host ''/tmp/log.txt'' (Some ''utf8'') \<and>
   readFile unicode_none mem_host ''/tmp/log.txt'' None =
     readFile unicode_none mem_host ''/tmp/log.txt'' (Some ''utf8'')"
proof -
  have a: "is_ascii ''Base64''"
    by code_simp
  have c: "equal_ignoring_case ''Base64'' ''bASE64''"
    by (simp add: equal_ignoring_case_def same_letter_def)
  have t: "toUpperCase unicode_none ''base64'' = toUpperCase unicode_none ''BASE64''"
    by code_simp
  have k: "EncodingType mem_host (toUpperCase unicode_none ''base64'') = Some ''base64''"
    by code_simp
  have n: "EncodingType mem_host (toUpperCase unicode_none ''latin1'') = None"
    by code_simp
  have u: "EncodingType mem_host ''UTF8'' = Some ''utf8''"
    by code_simp
  note th = encoding_resolution [where ?e1.0 = "''Base64''" and ?e2.0 = "''bASE64''"
      and U = unicode_none and H = mem_host and path = "''/tmp/log.txt''" and data = "[]"
      and ?n1.0 = "''base64''" and ?n2.0 = "''BASE64''" and r = "''base64''" and v = "''base64''"
      and u = "''latin1''" and encoding = None and s = mem_start]
  from th a c
  have same: "encodingType unicode_none mem_host (Some ''Base64'') =
                encodingType unicode_none mem_host (Some ''bASE64'')"
    "readFile unicode_none mem_host ''/tmp/log.txt'' (Some ''Base64'') =
       readFile unicode_none mem_host ''/tmp/log.txt'' (Some ''bASE64'')"
    by blast+
  from th k have own: "encodingType unicode_none mem_host (Some ''base64'') = Some ''base64''"
    by blast
  from th n have other: "encodingType unicode_none mem_host (Some ''latin1'') = EncodingType mem_host ''UTF8''"
    "readFile unicode_none mem_host ''/tmp/log.txt'' (Some ''latin1'') =
       readFile unicode_none mem_host ''/tmp/log.txt'' (Some ''utf8'')"
    by blast+
  from th have omitted: "encodingType unicode_none mem_host None = EncodingType mem_host ''UTF8''"
    "readFile unicode_none mem_host ''/tmp/log.txt'' None =
       readFile unicode_none mem_host ''/tmp/log.txt'' (Some ''utf8'')"
    by blast+
  show ?thesis
    by (intro conjI) (rule a c t k n same own other [unfolded u] omitted [unfolded u])+
qed

section \<open>Errors thrown by the asynchronous methods\<close>

text \<open>
  C5, as the specification states it: each operation fails with an error kind of its
  own, \<^verbatim>\<open>FileReadError\<close> for a read, \<^verbatim>\<open>FileWriteError\<close> for a write, and so on. On
  a host that rejects every call, the errors of \<^verbatim>\<open>readFile\<close> and of \<^verbatim>\<open>writeFile\<close>
  are both plain \<^verbatim>\<open>Error\<close> objects: they have the same name, which is none of the
  names of the specification.
\<close>

theorem error_kind_counterexample:
  "fst (call unicode_none rejecting_host (ReadFile ''/f'' None) ()) = Inl (new_Error ''Failed to read file at /f: ENOENT'') \<and>
   name (new_Error ''Failed to read file at /f: ENOENT'') \<noteq> spec_error_kind (ReadFile ''/f'' None) \<and>
   fst (call unicode_none rejecting_host (WriteFile ''/f'' ''x'' None) ()) = Inl (new_Error ''Failed to write file at /f: ENOENT'') \<and>
   name (new_Error ''Failed to write file at /f: ENOENT'') \<noteq> spec_error_kind (WriteFile ''/f'' ''x'' None) \<and>
   name (new_Error ''Failed to read file at /f: ENOENT'') = name (new_Error ''Failed to write file at /f: ENOENT'')"
  by code_simp

text \<open>
  C5, amended. Every error thrown by an asynchronous method is a plain \<^verbatim>\<open>Error\<close>
  (its name is \<^verbatim>\<open>Error\<close>), and its message starts with the text of that method
  (\<open>failure_prefix\<close>). Errors thrown by two different methods never have the same
  message, so a caller can tell the operations apart by the message, and only by it.
\<close>

theorem errors_told_apart_by_message:
  assumes "fst (call U H c s) = Inl e" and "fst (call U' H' c' s') = Inl e'" and "method_name c \<noteq> method_name c'"
  shows "name e = ''Error'' \<and> name e' = ''Error'' \<and>
         prefix (failure_prefix c) (message e) \<and> prefix (failure_prefix c') (message e') \<and>
         message e \<noteq> message e'"
proof -
  from call_failure [OF assms(1)]
  have c: "name e = ''Error''" "\<forall>p. c \<noteq> Exists p" "prefix (failure_prefix c) (message e)"
    by simp_all
  from call_failure [OF assms(2)]
  have c': "name e' = ''Error''" "\<forall>p. c' \<noteq> Exists p" "prefix (failure_prefix c') (message e')"
    by simp_all
  have "message e \<noteq> message e'"
  proof
    assume "message e = message e'"
    with c(3) c'(3)
    have "prefix (failure_prefix c) (failure_prefix c') \<or> prefix (failure_prefix c') (failure_prefix c)"
      by (auto dest: prefix_same_cases)
    moreover from assms(3) have "method_name c' \<noteq> method_name c" by simp
    ultimately show False
      using failure_prefix_incomparable [OF assms(3) c(2) c'(2)]
        failure_prefix_incomparable [OF \<open>method_name c' \<noteq> method_name c\<close> c'(2) c(2)]
      by blast
  qed
  with c c' show ?thesis by simp
qed

theorem errors_told_apart_by_message_witness:
  "fst (call unicode_none rejecting_host (Readdir ''/d'') ()) = Inl (new_Error ''Failed to read directory at /d: ENOENT'') \<and>
   fst (call unicode_none read_only_host (AppendFile ''/tmp/log.txt'' ''x'') mem_start) =
     Inl (new_Error ''Failed to append file at /tmp/log.txt: Failed to write file at /tmp/log.txt: Read-only file system /tmp/log.txt'') \<and>
   method_name (Readdir ''/d'') \<noteq> method_name (AppendFile ''/tmp/log.txt'' ''x'') \<and>
   message (new_Error ''Failed to read directory at /d: ENOENT'') \<noteq>
   message (new_Error ''Failed to append file at /tmp/log.txt: Failed to write file at /tmp/log.txt: Read-only file system /tmp/log.txt'')"
proof -
  have a: "fst (call unicode_none rejecting_host (Readdir ''/d'') ()) = Inl (new_Error ''Failed to read directory at /d: ENOENT'')"
    by code_simp
  have b: "fst (call unicode_none read_only_host (AppendFile ''/tmp/log.txt'' ''x'') mem_start) =
     Inl (new_Error ''Failed to append file at /tmp/log.txt: Failed to write file at /tmp/log.txt: Read-only file system /tmp/log.txt'')"
    by code_simp
  have m: "method_name (Readdir ''/d'') \<noteq> method_name (AppendFile ''/tmp/log.txt'' ''x'')"
    by simp
  from errors_told_apart_by_message [OF a b m] a b m show ?thesis by blast
qed

text \<open>
  C6, as the specification states it: every message has the form
  \<^verbatim>\<open>Failed to <verb> <noun> at/from <path>[ to <path>]: <underlying message>\<close>. The
  message of \<^verbatim>\<open>stat\<close> has the preposition \<^verbatim>\<open>for\<close>, so it does not have this form.
\<close>

theorem stat_message_counterexample:
  "fst (stat rejecting_host ''/f'' ()) = Inl (new_Error ''Failed to retrieve stats for /f: ENOENT'') \<and>
   fst (getInfoAsync rejecting_host ''/f'' (Some \<lparr>size_opt = True\<rparr>) ()) = Inl enoent \<and>
   \<not> has_fixed_form [''at'', ''from''] [''/f''] (message enoent)
       (message (new_Error ''Failed to retrieve stats for /f: ENOENT''))"
  by code_simp

text \<open>
  C6, amended. Whenever the host call of an asynchronous method is rejected, the method
  throws an error whose message is
  \<^verbatim>\<open>Failed to <verb> <noun> at/from <path>[ to <path>]: <underlying message>\<close>, except
  that \<^verbatim>\<open>stat\<close> writes \<^verbatim>\<open>Failed to retrieve stats for <path>: <underlying message>\<close>.
  The underlying message is the message of the host's error; for \<^verbatim>\<open>appendFile\<close> it is
  the message of the error of \<^verbatim>\<open>readFile\<close> or \<^verbatim>\<open>writeFile\<close>, which contains the
  message of the host's error in turn. (\<^verbatim>\<open>exists\<close> throws nothing.)
\<close>

theorem wrapped_error_messages:
  "(fst (readAsStringAsync H path \<lparr>opt_encoding = encodingType U H encoding\<rparr> s) = Inl he \<longrightarrow>
      (\<exists>e. fst (readFile U H path encoding s) = Inl e \<and>
           has_fixed_form [''at'', ''from''] [path] (message he) (message e))) \<and>
   (fst (writeAsStringAsync H path data \<lparr>opt_encoding = encodingType U H encoding\<rparr> s) = Inl he \<longrightarrow>
      (\<exists>e. fst (writeFile U H path data encoding s) = Inl e \<and>
           has_fixed_form [''at'', ''from''] [path] (message he) (message e))) \<and>
   (fst (readAsStringAsync H path \<lparr>opt_encoding = encodingType U H None\<rparr> s) = Inl he \<longrightarrow>
      (\<exists>e. fst (appendFile U H path data s) = Inl e \<and>
           has_fixed_form [''at'', ''from''] [path]
             (''Failed to read file at '' @ path @ '': '' @ message he) (message e))) \<and>
   (readAsStringAsync H path \<lparr>opt_encoding = encodingType U H None\<rparr> s = (Inr existingData, s1) \<and>
    fst (writeAsStringAsync H path (existingData @ data) \<lparr>opt_encoding = encodingType U H None\<rparr> s1)
      = Inl he \<longrightarrow>
      (\<exists>e. fst (appendFile U H path data s) = Inl e \<and>
           has_fixed_form [''at'', ''from''] [path]
             (''Failed to write file at '' @ path @ '': '' @ message he) (message e))) \<and>
   (fst (deleteAsync H path s) = Inl he \<longrightarrow>
      (\<exists>e. fst (unlink H path s) = Inl e \<and>
           has_fixed_form [''at'', ''from''] [path] (message he) (message e))) \<and>
   (fst (moveAsync H \<lparr>from_path = oldPath, to_path = newPath\<rparr> s) = Inl he \<longrightarrow>
      (\<exists>e. fst (rename H oldPath newPath s) = Inl e \<and>
           has_fixed_form [''at'', ''from''] [oldPath, newPath] (message he) (message e))) \<and>
   (fst (makeDirectoryAsync H path \<lparr>intermediates = recursive (default_options options)\<rparr> s) = Inl he \<longrightarrow>
      (\<exists>e. fst (mkdir H path options s) = Inl e \<and>
           has_fixed_form [''at'', ''from''] [path] (message he) (message e))) \<and>
   (fst (readDirectoryAsync H path s) = Inl he \<longrightarrow>
      (\<exists>e. fst (readdir H path s) = Inl e \<and>
           has_fixed_form [''at'', ''from''] [path] (message he) (message e))) \<and>
   (fst (getInfoAsync H path (Some \<lparr>size_opt = True\<rparr>) s) = Inl he \<longrightarrow>
      (\<exists>e. fst (stat H path s) = Inl e \<and>
           has_fixed_form [''for''] [path] (message he) (message e) \<and>
           message e = ''Failed to retrieve stats for '' @ path @ '': '' @ message he)) \<and>
   (fst (copyAsync H \<lparr>from_path = srcPath, to_path = destPath\<rparr> s) = Inl he \<longrightarrow>
      (\<exists>e. fst (copyFile H srcPath destPath s) = Inl e \<and>
           has_fixed_form [''at'', ''from''] [srcPath, destPath] (message he) (message e)))"
proof (intro conjI impI)
  assume "fst (readAsStringAsync H path \<lparr>opt_encoding = encodingType U H encoding\<rparr> s) = Inl he"
  from readFile_fails [OF this]
  show "\<exists>e. fst (readFile U H path encoding s) = Inl e \<and>
           has_fixed_form [''at'', ''from''] [path] (message he) (message e)"
    using form_read_file [of path "message he"] by simp
next
  assume "fst (writeAsStringAsync H path data \<lparr>opt_encoding = encodingType U H encoding\<rparr> s) = Inl he"
  from writeFile_fails [OF this]
  show "\<exists>e. fst (writeFile U H path data encoding s) = Inl e \<and>
           has_fixed_form [''at'', ''from''] [path] (message he) (message e)"
    using form_write_file [of path "message he"] by simp
next
  assume "fst (readAsStringAsync H path \<lparr>opt_encoding = encodingType U H None\<rparr> s) = Inl he"
  from appendFile_read_fails [OF this]
  show "\<exists>e. fst (appendFile U H path data s) = Inl e \<and>
           has_fixed_form [''at'', ''from''] [path]
             (''Failed to read file at '' @ path @ '': '' @ message he) (message e)"
    using form_append_file [of path "''Failed to read file at '' @ path @ '': '' @ message he"]
    by simp
next
  assume "readAsStringAsync H path \<lparr>opt_encoding = encodingType U H None\<rparr> s = (Inr existingData, s1) \<and>
    fst (writeAsStringAsync H path (existingData @ data) \<lparr>opt_encoding = encodingType U H None\<rparr> s1)
      = Inl he"
  then have "fst (appendFile U H path data s) =
           Inl (new_Error (''Failed to append file at '' @ path @ '': '' @
                           ''Failed to write file at '' @ path @ '': '' @ message he))"
    by (blast intro: appendFile_write_fails)
  then show "\<exists>e. fst (appendFile U H path data s) = Inl e \<and>
           has_fixed_form [''at'', ''from''] [path]
             (''Failed to write file at '' @ path @ '': '' @ message he) (message e)"
    using form_append_file [of path "''Failed to write file at '' @ path @ '': '' @ message he"]
    by simp
next
  assume "fst (deleteAsync H path s) = Inl he"
  from unlink_fails [OF this]
  show "\<exists>e. fst (unlink H path s) = Inl e \<and>
           has_fixed_form [''at'', ''from''] [path] (message he) (message e)"
    using form_delete_file [of path "message he"] by simp
next
  assume "fst (moveAsync H \<lparr>from_path = oldPath, to_path = newPath\<rparr> s) = Inl he"
  from rename_fails [OF this]
  show "\<exists>e. fst (rename H oldPath newPath s) = Inl e \<and>
           has_fixed_form [''at'', ''from''] [oldPath, newPath] (message he) (message e)"
    using form_rename_file [of oldPath newPath "message he"] by simp
next
  assume "fst (makeDirectoryAsync H path \<lparr>intermediates = recursive (default_options options)\<rparr> s) = Inl he"
  from mkdir_fails [OF this]
  show "\<exists>e. fst (mkdir H path options s) = Inl e \<and>
           has_fixed_form [''at'', ''from''] [path] (message he) (message e)"
    using form_create_directory [of path "message he"] by simp
next
  assume "fst (readDirectoryAsync H path s) = Inl he"
  from readdir_fails [OF this]
  show "\<exists>e. fst (readdir H path s) = Inl e \<and>
           has_fixed_form [''at'', ''from''] [path] (message he) (message e)"
    using form_read_directory [of path "message he"] by simp
next
  assume "fst (getInfoAsync H path (Some \<lparr>size_opt = True\<rparr>) s) = Inl he"
  from stat_fails [OF this]
  show "\<exists>e. fst (stat H path s) = Inl e \<and>
           has_fixed_form [''for''] [path] (message he) (message e) \<and>
           message e = ''Failed to retrieve stats for '' @ path @ '': '' @ message he"
    using form_retrieve_stats [of path "message he"] by simp
next
  assume "fst (copyAsync H \<lparr>from_path = srcPath, to_path = destPath\<rparr> s) = Inl he"
  from copyFile_fails [OF this]
  show "\<exists>e. fst (copyFile H srcPath destPath s) = Inl e \<and>
           has_fixed_form [''at'', ''from''] [srcPath, destPath] (message he) (message e)"
    using form_copy_file [of srcPath destPath "message he"] by simp
qed

theorem wrapped_error_messages_witness:
  "fst (readAsStringAsync rejecting_host ''/f'' \<lparr>opt_encoding = encodingType unicode_none rejecting_host None\<rparr> ()) = Inl enoent \<and>
   fst (writeAsStringAsync rejecting_host ''/f'' ''x'' \<lparr>opt_encoding = encodingType unicode_none rejecting_host None\<rparr> ()) = Inl enoent \<and>
   fst (deleteAsync rejecting_host ''/f'' ()) = Inl enoent \<and>
   fst (moveAsync rejecting_host \<lparr>from_path = ''/f'', to_path = ''/g''\<rparr> ()) = Inl enoent \<and>
   fst (makeDirectoryAsync rejecting_host ''/f'' \<lparr>intermediates = recursive (default_options None)\<rparr> ()) = Inl enoent \<and>
   fst (readDirectoryAsync rejecting_host ''/f'' ()) = Inl enoent \<and>
   fst (getInfoAsync rejecting_host ''/f'' (Some \<lparr>size_opt = True\<rparr>) ()) = Inl enoent \<and>
   fst (copyAsync rejecting_host \<lparr>from_path = ''/f'', to_path = ''/g''\<rparr> ()) = Inl enoent \<and>
   readAsStringAsync read_only_host ''/tmp/log.txt'' \<lparr>opt_encoding = encodingType unicode_none read_only_host None\<rparr> mem_start
     = (Inr [], mem_start) \<and>
   fst (writeAsStringAsync read_only_host ''/tmp/log.txt'' ([] @ ''x'')
          \<lparr>opt_encoding = encodingType unicode_none read_only_host None\<rparr> mem_start)
     = Inl (mem_error ''Read-only file system'' ''/tmp/log.txt'') \<and>
   (\<exists>e. fst (readFile unicode_none rejecting_host ''/f'' None ()) = Inl e \<and>
        has_fixed_form [''at'', ''from''] [''/f''] (message enoent) (message e)) \<and>
   (\<exists>e. fst (writeFile unicode_none rejecting_host ''/f'' ''x'' None ()) = Inl e \<and>
        has_fixed_form [''at'', ''from''] [''/f''] (message enoent) (message e)) \<and>
   (\<exists>e. fst (appendFile unicode_none rejecting_host ''/f'' ''x'' ()) = Inl e \<and>
        has_fixed_form [''at'', ''from''] [''/f'']
          (''Failed to read file at '' @ ''/f'' @ '': '' @ message enoent) (message e)) \<and>
   (\<exists>e. fst (appendFile unicode_none read_only_host ''/tmp/log.txt'' ''x'' mem_start) = Inl e \<and>
        has_fixed_form [''at'', ''from''] [''/tmp/log.txt'']
          (''Failed to write file at '' @ ''/tmp/log.txt'' @ '': '' @
             message (mem_error ''Read-only file system'' ''/tmp/log.txt'')) (message e)) \<and>
   (\<exists>e. fst (unlink rejecting_host ''/f'' ()) = Inl e \<and>
        has_fixed_form [''at'', ''from''] [''/f''] (message enoent) (message e)) \<and>
   (\<exists>e. fst (rename rejecting_host ''/f'' ''/g'' ()) = Inl e \<and>
        has_fixed_form [''at'', ''from''] [''/f'', ''/g''] (message enoent) (message e)) \<and>
   (\<exists>e. fst (mkdir rejecting_host ''/f'' None ()) = Inl e \<and>
        has_fixed_form [''at'', ''from''] [''/f''] (message enoent) (message e)) \<and>
   (\<exists>e. fst (readdir rejecting_host ''/f'' ()) = Inl e \<and>
        has_fixed_form [''at'', ''from''] [''/f''] (message enoent) (message e)) \<and>
   (\<exists>e. fst (stat rejecting_host ''/f'' ()) = Inl e \<and>
        has_fixed_form [''for''] [''/f''] (message enoent) (message e) \<and>
        message e = ''Failed to retrieve stats for '' @ ''/f'' @ '': '' @ message enoent) \<and>
   (\<exists>e. fst (copyFile rejecting_host ''/f'' ''/g'' ()) = Inl e \<and>
        has_fixed_form [''at'', ''from''] [''/f'', ''/g''] (message enoent) (message e))"
proof -
  have r: "readAsStringAsync read_only_host ''/tmp/log.txt'' \<lparr>opt_encoding = encodingType unicode_none read_only_host None\<rparr> mem_start
     = (Inr [], mem_start)"
    by (simp add: read_only_host_def mem_host_def mem_read_def mem_start_def)
  have w: "fst (writeAsStringAsync read_only_host ''/tmp/log.txt'' ([] @ ''x'')
          \<lparr>opt_encoding = encodingType unicode_none read_only_host None\<rparr> mem_start)
     = Inl (mem_error ''Read-only file system'' ''/tmp/log.txt'')"
    by (simp add: read_only_host_def mem_host_def throw_def)
  from wrapped_error_messages [where H = rejecting_host and path = "''/f''" and encoding = None
      and data = "''x''" and s = "()" and he = enoent and oldPath = "''/f''" and newPath = "''/g''"
      and options = None and srcPath = "''/f''" and destPath = "''/g''"]
    wrapped_error_messages [where H = read_only_host and path = "''/tmp/log.txt''" and data = "''x''"
      and s = mem_start and existingData = "[]" and ?s1.0 = mem_start
      and he = "mem_error ''Read-only file system'' ''/tmp/log.txt''"]
    r w
  show ?thesis
    by (simp only: rejecting_host_sel fst_conv simp_thms)
qed

section \<open>Round trip\<close>

text \<open>
  C7. On a host that reads back what it wrote, for every path, text and encoding
  argument, a \<^verbatim>\<open>writeFile(path, text, encoding)\<close> that succeeds followed by
  \<^verbatim>\<open>readFile(path, encoding)\<close> returns exactly the text.
\<close>

theorem write_read_roundtrip:
  "host_reads_back_writes H \<Longrightarrow> writeFile U H path data encoding s = (Inr (), s')
     \<Longrightarrow> fst (readFile U H path encoding s') = Inr data"
  by (rule write_then_read)

theorem write_read_roundtrip_witness:
  "host_reads_back_writes mem_host \<and>
   writeFile unicode_none mem_host ''/tmp/new.txt'' ''hello'' (Some ''Base64'') mem_start = (Inr (), mem_fresh) \<and>
   fst (readFile unicode_none mem_host ''/tmp/new.txt'' (Some ''Base64'') mem_fresh) = Inr ''hello''"
proof -
  have w: "writeFile unicode_none mem_host ''/tmp/new.txt'' ''hello'' (Some ''Base64'') mem_start = (Inr (), mem_fresh)"
    by (simp add: mem_fresh_def writeFile_def control_defs mem_host_def mem_write_def mem_start_def)
  from write_read_roundtrip [OF mem_host_reads_back_writes w] mem_host_reads_back_writes w
  show ?thesis by simp
qed

section \<open>mkdir\<close>



lemma intermediate_directories_example:
  "intermediate_directories ''/tmp/a/b'' = [''/tmp'', ''/tmp/a'']"
  by (simp add: intermediate_directories_def upt_conv_Cons nth_Cons')

lemmas mem_mkdir_defs = mkdir_def default_options_def control_defs mem_host_def
  mem_makeDirectory_def intermediate_directories_example mem_start_def mem_made_def mem_error_def








section \<open>stat\<close>

text \<open>
  C9. The specification says that for a freshly written file of \<open>N\<close> bytes the
  descriptor of \<^verbatim>\<open>stat\<close> has \<^verbatim>\<open>isFile()\<close> true, \<^verbatim>\<open>isDirectory()\<close> false, size \<open>N\<close>
  and a modification time. \<^verbatim>\<open>stat\<close> asks the host with \<^verbatim>\<open>size: true\<close> and hands on
  the properties \<^verbatim>\<open>isFile\<close>, \<^verbatim>\<open>isDirectory\<close>, \<^verbatim>\<open>size\<close> and \<^verbatim>\<open>modificationTime\<close> of
  the answer, whatever they are. The in-memory host answers with the properties that
  expo-file-system documents, which have no \<^verbatim>\<open>isFile\<close>: after \<^verbatim>\<open>hello\<close> has been
  written to a new file, \<^verbatim>\<open>isDirectory()\<close> is false, the size is 5 and the
  modification time is there, but \<^verbatim>\<open>isFile()\<close> is \<^verbatim>\<open>undefined\<close>, not true.
\<close>

theorem stat_isFile_undefined:
  "stat H path s =
     (case getInfoAsync H path (Some \<lparr>size_opt = True\<rparr>) s of
        (Inl error, s') \<Rightarrow>
          (Inl (new_Error (''Failed to retrieve stats for '' @ path @ '': '' @ message error)), s')
      | (Inr info, s') \<Rightarrow>
          (Inr \<lparr>isFile = info_isFile info, isDirectory = info_isDirectory info,
                stat_size = info_size info, modificationTime = info_modificationTime info\<rparr>, s')) \<and>
   writeFile unicode_none mem_host ''/tmp/new.txt'' ''hello'' None mem_start = (Inr (), mem_fresh) \<and>
   length ''hello'' = 5 \<and>
   stat mem_host ''/tmp/new.txt'' mem_fresh =
     (Inr \<lparr>isFile = None, isDirectory = Some False, stat_size = Some 5,
           modificationTime = Some 1\<rparr>, mem_fresh)"
proof (intro conjI)
  show "stat H path s =
     (case getInfoAsync H path (Some \<lparr>size_opt = True\<rparr>) s of
        (Inl error, s') \<Rightarrow>
          (Inl (new_Error (''Failed to retrieve stats for '' @ path @ '': '' @ message error)), s')
      | (Inr info, s') \<Rightarrow>
          (Inr \<lparr>isFile = info_isFile info, isDirectory = info_isDirectory info,
                stat_size = info_size info, modificationTime = info_modificationTime info\<rparr>, s'))"
    by (auto simp: stat_def control_defs split: prod.splits sum.splits)
  show "writeFile unicode_none mem_host ''/tmp/new.txt'' ''hello'' None mem_start = (Inr (), mem_fresh)"
    by (simp add: mem_fresh_def writeFile_def control_defs mem_host_def mem_write_def mem_start_def)
  show "length ''hello'' = 5"
    by simp
  show "stat mem_host ''/tmp/new.txt'' mem_fresh =
     (Inr \<lparr>isFile = None, isDirectory = Some False, stat_size = Some 5,
           modificationTime = Some 1\<rparr>, mem_fresh)"
    by (simp add: stat_def control_defs mem_fresh_def mem_host_def mem_getInfo_def)
qed

section \<open>mkdir with an options object that has no \<^verbatim>\<open>recursive\<close>\<close>

text \<open>
  C10. When \<^verbatim>\<open>mkdir\<close> is called with an options object that has no \<^verbatim>\<open>recursive\<close>
  property, such as \<^verbatim>\<open>{}\<close>, the host's \<^verbatim>\<open>makeDirectoryAsync\<close> receives
  \<^verbatim>\<open>intermediates: undefined\<close>; it receives \<^verbatim>\<open>intermediates: true\<close> by default only
  when the options argument is omitted as a whole.
\<close>

theorem mkdir_options_passed_as_given:
  "mkdir H path (Some \<lparr>recursive = None\<rparr>) s =
     (case makeDirectoryAsync H path \<lparr>intermediates = None\<rparr> s of
        (Inl error, s') \<Rightarrow>
          (Inl (new_Error (''Failed to create directory at '' @ path @ '': '' @ message error)), s')
      | (Inr v, s') \<Rightarrow> (Inr v, s')) \<and>
   mkdir H path None s =
     (case makeDirectoryAsync H path \<lparr>intermediates = Some True\<rparr> s of
        (Inl error, s') \<Rightarrow>
          (Inl (new_Error (''Failed to create directory at '' @ path @ '': '' @ message error)), s')
      | (Inr v, s') \<Rightarrow> (Inr v, s'))"
  by (auto simp: mkdir_def default_options_def control_defs split: prod.splits sum.splits)

text \<open>On the in-memory host the two calls differ when a parent directory is missing.\<close>

lemma mkdir_empty_options_example:
  "fst (mkdir mem_host ''/tmp/a/b'' None mem_start) = Inr () \<and>
   fst (mkdir mem_host ''/tmp/a/b'' (Some \<lparr>recursive = None\<rparr>) mem_start) =
     Inl (new_Error ''Failed to create directory at /tmp/a/b: Parent directory is missing for /tmp/a/b'')"
  by (simp add: mem_mkdir_defs)

end
